theory Spec2Isabelle
  imports Complex_Main "HOL-Library.Char_ord" "HOL-Library.List_Lexorder"
    "HOL-Library.AList" "HOL-Library.Multiset"
begin

section \<open>Values\<close>

text \<open>
  \<^verbatim>\<open>prompt_manager.py\<close> handles untyped data: the documents that
  \<^verbatim>\<open>yaml.safe_load\<close> returns, the JSON bodies of requests and the JSON lines of the usage
  log. \<open>pyval\<close> is that universe. A Python \<^verbatim>\<open>dict\<close> keeps its keys in insertion order, so
  it is an association list (keys are strings, as in JSON). A Python \<^verbatim>\<open>float\<close> is
  modelled by the rational number it denotes: conversions and means are exact in the model,
  and rounding, infinities and NaN are outside it. Strings compare as Python's do, by code
  point, shorter prefix first.
\<close>

datatype pyval =
    PNone
  | PBool bool
  | PInt int
  | PFloat rat
  | PStr string
  | PList "pyval list"
  | PDict "(string \<times> pyval) list"

type_synonym pydict = "(string \<times> pyval) list"

datatype py_error = KeyError | IndexError | TypeError | AttributeError | SchemaError

text \<open>\<^verbatim>\<open>bool(v)\<close>, as \<^verbatim>\<open>if v\<close>, \<^verbatim>\<open>not v\<close> and \<^verbatim>\<open>v or d\<close> use it.\<close>

fun py_truthy :: "pyval \<Rightarrow> bool" where
  "py_truthy PNone = False"
| "py_truthy (PBool b) = b"
| "py_truthy (PInt i) = (i \<noteq> 0)"
| "py_truthy (PFloat r) = (r \<noteq> 0)"
| "py_truthy (PStr s) = (s \<noteq> [])"
| "py_truthy (PList xs) = (xs \<noteq> [])"
| "py_truthy (PDict d) = (d \<noteq> [])"

text \<open>\<^verbatim>\<open>d.get(k)\<close> (\<^verbatim>\<open>None\<close> when the key is missing) and \<^verbatim>\<open>d.get(k, default)\<close>.\<close>

definition dict_get :: "pydict \<Rightarrow> string \<Rightarrow> pyval" where
  "dict_get d k = (case map_of d k of None \<Rightarrow> PNone | Some v \<Rightarrow> v)"

definition dict_get_default :: "pydict \<Rightarrow> string \<Rightarrow> pyval \<Rightarrow> pyval" where
  "dict_get_default d k dflt = (case map_of d k of None \<Rightarrow> dflt | Some v \<Rightarrow> v)"

text \<open>\<^verbatim>\<open>d[k] = v\<close>: an existing key keeps its place, a new key goes last.\<close>

definition dict_set :: "pydict \<Rightarrow> string \<Rightarrow> pyval \<Rightarrow> pydict" where
  "dict_set d k v = AList.update k v d"

text \<open>\<^verbatim>\<open>d.setdefault(k, v)\<close>, for its effect on \<open>d\<close>.\<close>

definition dict_setdefault :: "pydict \<Rightarrow> string \<Rightarrow> pyval \<Rightarrow> pydict" where
  "dict_setdefault d k v = (case map_of d k of None \<Rightarrow> dict_set d k v | Some _ \<Rightarrow> d)"

section \<open>The libraries the module calls\<close>

text \<open>
  The module imports \<^verbatim>\<open>packaging.version.parse\<close>, \<^verbatim>\<open>jsonschema.validate\<close>,
  \<^verbatim>\<open>json.dumps\<close> and \<^verbatim>\<open>json.loads\<close>. Their code is not part of the repository, so
  each enters the model as a field of one record, and every theorem holds for every value
  of the record.

  \<^item> \<open>parse_version\<close>: \<^verbatim>\<open>parse_version(s)\<close>; \<open>None\<close> when it raises
    (\<^verbatim>\<open>InvalidVersion\<close>), otherwise the key by which \<^verbatim>\<open>Version\<close> objects compare.
  \<^item> \<open>py_repr\<close>: \<^verbatim>\<open>str(v)\<close> for a number or a container.
  \<^item> \<open>py_gt_other\<close>: \<^verbatim>\<open>a > b\<close> when \<open>a\<close> and \<open>b\<close> are not both strings; \<open>None\<close> when it
    raises \<^verbatim>\<open>TypeError\<close>.
  \<^item> \<open>jsonschema_validate\<close>: \<^verbatim>\<open>jsonschema_validate(instance=r, schema=s)\<close>, as a
    function of \<open>r\<close> and \<open>s\<close>: it returns, or raises \<^verbatim>\<open>ValidationError\<close> (whose \<^verbatim>\<open>str\<close> is
    kept), or raises \<^verbatim>\<open>SchemaError\<close> because the schema itself is invalid.
  \<^item> \<open>json_dumps\<close>: \<^verbatim>\<open>json.dumps(v, ensure_ascii=False)\<close>.
  \<^item> \<open>json_loads\<close>: \<^verbatim>\<open>json.loads(s)\<close>; \<open>None\<close> when it raises.
\<close>

datatype validation = Accepted | RaisesValidationError string | RaisesSchemaError

record 'k pylib =
  parse_version :: "string \<Rightarrow> 'k option"
  py_repr :: "pyval \<Rightarrow> string"
  py_gt_other :: "pyval \<Rightarrow> pyval \<Rightarrow> bool option"
  jsonschema_validate :: "pyval \<Rightarrow> pyval \<Rightarrow> validation"
  json_dumps :: "pyval \<Rightarrow> string"
  json_loads :: "string \<Rightarrow> pyval option"

text \<open>\<^verbatim>\<open>str(v)\<close>.\<close>

fun py_str :: "'k pylib \<Rightarrow> pyval \<Rightarrow> string" where
  "py_str L (PStr s) = s"
| "py_str L PNone = ''None''"
| "py_str L (PBool b) = (if b then ''True'' else ''False'')"
| "py_str L v = py_repr L v"

text \<open>
  \<^verbatim>\<open>xs.sort(key=key, reverse=True)\<close>: a stable sort, and \<^verbatim>\<open>reverse=True\<close> keeps the
  original order among elements with equal keys (CPython reverses the list, sorts it
  stably ascending and reverses the result).
\<close>

definition py_sort_desc :: "('a \<Rightarrow> 'b::linorder) \<Rightarrow> 'a list \<Rightarrow> 'a list" where
  "py_sort_desc key xs = rev (sort_key key (rev xs))"

section \<open>The prompt index\<close>

text \<open>
  One \<^verbatim>\<open>*.yaml\<close> file as \<^verbatim>\<open>_load_prompts\<close> meets it: the base name of its path, the
  clock reading \<^verbatim>\<open>datetime.now(timezone.utc).isoformat()\<close> taken for it, and what
  \<^verbatim>\<open>yaml.safe_load\<close> returns (\<open>None\<close> when \<^verbatim>\<open>open\<close> or the parser raises).
\<close>

record prompt_file =
  source_file :: string
  loaded_at :: string
  safe_load :: "pyval option"

type_synonym registry = "string \<rightharpoonup> pydict list"

text \<open>
  The body of the loop of \<^verbatim>\<open>_load_prompts\<close> for one file: \<open>None\<close> when the file is skipped,
  otherwise the key and the entry appended to \<^verbatim>\<open>_PROMPT_INDEX\<close>. The file is skipped with
  "missing prompt_id" when \<^verbatim>\<open>not data or "prompt_id" not in data\<close>, and with "Failed to load"
  when anything raises. Data that is not a mapping is skipped on one of the two paths: the
  membership test is false, or it raises \<^verbatim>\<open>TypeError\<close>, or \<^verbatim>\<open>data["prompt_id"]\<close> does.
\<close>

definition load_entry :: "'k pylib \<Rightarrow> prompt_file \<Rightarrow> (string \<times> pydict) option" where
  "load_entry L f =
     (case safe_load f of
        None \<Rightarrow> None
      | Some data \<Rightarrow>
          if \<not> py_truthy data then None
          else (case data of
                  PDict d \<Rightarrow>
                    (case map_of d ''prompt_id'' of
                       None \<Rightarrow> None
                     | Some p \<Rightarrow>
                         Some (py_str L p,
                           dict_setdefault
                             (dict_setdefault
                               (dict_set (dict_set d ''_source_file'' (PStr (source_file f)))
                                  ''_loaded_at'' (PStr (loaded_at f)))
                               ''example_inputs'' (PList []))
                             ''expected_output_schema'' (PDict [])))
                | _ \<Rightarrow> None))"

text \<open>\<^verbatim>\<open>_PROMPT_INDEX.setdefault(pid, []).append(entry)\<close>.\<close>

definition index_append :: "registry \<Rightarrow> string \<Rightarrow> pydict \<Rightarrow> registry" where
  "index_append idx pid entry =
     idx(pid \<mapsto> (case idx pid of None \<Rightarrow> [] | Some vs \<Rightarrow> vs) @ [entry])"

fun index_files :: "'k pylib \<Rightarrow> prompt_file list \<Rightarrow> registry \<Rightarrow> registry" where
  "index_files L [] idx = idx"
| "index_files L (f # fs) idx =
     index_files L fs
       (case load_entry L f of None \<Rightarrow> idx | Some (pid, entry) \<Rightarrow> index_append idx pid entry)"

text \<open>
  The two sort keys of \<^verbatim>\<open>_load_prompts\<close>:
  \<^verbatim>\<open>parse_version(str(x.get("version", "0.0.0")))\<close> and, in the \<^verbatim>\<open>except\<close> branch,
  \<^verbatim>\<open>str(x.get("version", ""))\<close>.
\<close>

definition semantic_key :: "'k pylib \<Rightarrow> pydict \<Rightarrow> 'k option" where
  "semantic_key L x = parse_version L (py_str L (dict_get_default x ''version'' (PStr ''0.0.0'')))"

definition lexical_key :: "'k pylib \<Rightarrow> pydict \<Rightarrow> string" where
  "lexical_key L x = py_str L (dict_get_default x ''version'' (PStr ''''))"

text \<open>
  The \<^verbatim>\<open>try\<close>/\<^verbatim>\<open>except\<close> around the sort of one group. \<^verbatim>\<open>list.sort\<close> computes every key
  before it moves anything, so a key that raises leaves the list as it was, and the
  \<^verbatim>\<open>except\<close> branch sorts the original order.
\<close>

definition sort_versions :: "('k::linorder) pylib \<Rightarrow> pydict list \<Rightarrow> pydict list" where
  "sort_versions L versions =
     (if list_all (\<lambda>x. semantic_key L x \<noteq> None) versions
      then py_sort_desc (\<lambda>x. the (semantic_key L x)) versions
      else py_sort_desc (lexical_key L) versions)"

definition load_prompts :: "('k::linorder) pylib \<Rightarrow> prompt_file list \<Rightarrow> registry" where
  "load_prompts L files =
     (\<lambda>pid. map_option (sort_versions L) (index_files L files Map.empty pid))"


text \<open>The entries that the files contribute to one identifier, in the order of the files.\<close>

definition loaded_for :: "'k pylib \<Rightarrow> prompt_file list \<Rightarrow> string \<Rightarrow> pydict list" where
  "loaded_for L files pid =
     map snd (filter (\<lambda>pe. fst pe = pid) (List.map_filter (load_entry L) files))"


text \<open>A document that declares no \<^verbatim>\<open>prompt_id\<close>: not a mapping, or a mapping without the key.\<close>

definition lacks_prompt_id :: "prompt_file \<Rightarrow> bool" where
  "lacks_prompt_id f =
     (case safe_load f of
        Some (PDict d) \<Rightarrow> map_of d ''prompt_id'' = None
      | _ \<Rightarrow> True)"

section \<open>The usage log\<close>





section \<open>Metrics\<close>

text \<open>
  \<^verbatim>\<open>for line in f\<close> on a file opened in text mode: the lines of the text, without their
  line ends. A line ends at a line feed, at a carriage return or at the pair of them
  (universal newlines); text after the last line end is a line too.
\<close>

fun text_lines :: "string \<Rightarrow> string list" where
  "text_lines [] = []"
| "text_lines (c # cs) =
     (if c = CHR 0x0A then [] # text_lines cs
      else if c = CHR 0x0D
      then (case cs of
              [] \<Rightarrow> [[]]
            | c' # cs' \<Rightarrow> if c' = CHR 0x0A then [] # text_lines cs' else [] # text_lines cs)
      else (case text_lines cs of [] \<Rightarrow> [[c]] | l # ls \<Rightarrow> (c # l) # ls))"

text \<open>
  \<^verbatim>\<open>line.strip()\<close>, for the white space of ASCII (tab, line feed, vertical tab, form feed,
  carriage return, the separators 0x1C to 0x1F, and the space).
\<close>

definition is_space :: "char \<Rightarrow> bool" where
  "is_space c = (let n = (of_char c :: nat) in (9 \<le> n \<and> n \<le> 13) \<or> (28 \<le> n \<and> n \<le> 32))"

definition py_strip :: "string \<Rightarrow> string" where
  "py_strip s = rev (dropWhile is_space (rev (dropWhile is_space s)))"

text \<open>
  One value of \<^verbatim>\<open>agg\<close>, and the \<^verbatim>\<open>defaultdict\<close> itself. \<^verbatim>\<open>None\<close> is \<open>PNone\<close>. Keys that are
  equal in Python share a value (\<^verbatim>\<open>True\<close>, \<^verbatim>\<open>1\<close> and \<^verbatim>\<open>1.0\<close> are one key), so the map is
  indexed by one representative of each class of keys; a list or a mapping is not hashable
  and raises \<^verbatim>\<open>TypeError\<close> as a key.
\<close>

record bucket =
  agg_latencies :: "rat list"
  agg_count :: nat
  agg_last_seen :: pyval
  agg_latest_version :: pyval

definition new_bucket :: bucket where
  "new_bucket =
     \<lparr>agg_latencies = [], agg_count = 0, agg_last_seen = PNone, agg_latest_version = PNone\<rparr>"

type_synonym agg = "pyval \<rightharpoonup> bucket"

fun dict_key :: "pyval \<Rightarrow> pyval option" where
  "dict_key (PList xs) = None"
| "dict_key (PDict d) = None"
| "dict_key (PBool b) = Some (PInt (if b then 1 else 0))"
| "dict_key (PFloat r) = (if of_int \<lfloor>r\<rfloor> = r then Some (PInt \<lfloor>r\<rfloor>) else Some (PFloat r))"
| "dict_key v = Some v"

text \<open>
  \<^verbatim>\<open>isinstance(latency, (int, float))\<close> and then \<^verbatim>\<open>float(latency)\<close>. In Python \<^verbatim>\<open>bool\<close> is a
  subclass of \<^verbatim>\<open>int\<close>, so \<^verbatim>\<open>True\<close> and \<^verbatim>\<open>False\<close> pass the test.
\<close>

fun numeric_latency :: "pyval \<Rightarrow> rat option" where
  "numeric_latency (PInt i) = Some (of_int i)"
| "numeric_latency (PFloat r) = Some r"
| "numeric_latency (PBool b) = Some (if b then 1 else 0)"
| "numeric_latency v = None"

text \<open>\<^verbatim>\<open>a > b\<close>: by code point for two strings, the library's answer otherwise.\<close>

definition py_gt :: "'k pylib \<Rightarrow> pyval \<Rightarrow> pyval \<Rightarrow> bool option" where
  "py_gt L a b =
     (case (a, b) of
        (PStr x, PStr y) \<Rightarrow> Some (y < x)
      | _ \<Rightarrow> py_gt_other L a b)"

text \<open>
  \<^verbatim>\<open>if ts and (entry["last_seen"] is None or ts > entry["last_seen"])\<close>: the new value of
  \<^verbatim>\<open>last_seen\<close>, or the \<^verbatim>\<open>TypeError\<close> of the comparison.
\<close>

definition update_last_seen :: "'k pylib \<Rightarrow> pyval \<Rightarrow> pyval \<Rightarrow> py_error + pyval" where
  "update_last_seen L ts seen =
     (if \<not> py_truthy ts then Inr seen
      else if seen = PNone then Inr ts
      else (case py_gt L ts seen of
              None \<Rightarrow> Inl TypeError
            | Some newer \<Rightarrow> Inr (if newer then ts else seen)))"

text \<open>
  The update of \<^verbatim>\<open>latest_version\<close>. In the \<^verbatim>\<open>try\<close> block \<^verbatim>\<open>parse_version\<close> runs only when
  \<^verbatim>\<open>latest_version\<close> is not \<^verbatim>\<open>None\<close>; when it raises for either string, the \<^verbatim>\<open>except\<close>
  branch compares the two strings.
\<close>

definition update_latest_version :: "('k::linorder) pylib \<Rightarrow> pyval \<Rightarrow> pyval \<Rightarrow> pyval" where
  "update_latest_version L ver latest =
     (if \<not> py_truthy ver then latest
      else if latest = PNone then ver
      else (case (parse_version L (py_str L ver), parse_version L (py_str L latest)) of
              (Some a, Some b) \<Rightarrow> if b < a then ver else latest
            | _ \<Rightarrow> if py_str L latest < py_str L ver then ver else latest))"

text \<open>\<^verbatim>\<open>rec.get("prompt_id") or "<unknown>"\<close>.\<close>

definition record_pid :: "pydict \<Rightarrow> pyval" where
  "record_pid r =
     (if py_truthy (dict_get r ''prompt_id'') then dict_get r ''prompt_id''
      else PStr ''<unknown>'')"

text \<open>
  The body of the loop of \<^verbatim>\<open>api_metrics\<close> after \<^verbatim>\<open>json.loads\<close>, for one parsed line. A value
  that is not a mapping has no \<^verbatim>\<open>get\<close>: \<^verbatim>\<open>AttributeError\<close>. Every exception here is caught
  by the outer \<^verbatim>\<open>except Exception\<close>, which ends the aggregation.
\<close>

definition fold_record :: "('k::linorder) pylib \<Rightarrow> agg \<Rightarrow> pyval \<Rightarrow> py_error + agg" where
  "fold_record L agg rec =
     (case rec of
        PDict r \<Rightarrow>
          (let pid = record_pid r;
               latency = dict_get r ''latency_ms'';
               ts = dict_get r ''timestamp'';
               ver = dict_get r ''version''
           in case dict_key pid of
                None \<Rightarrow> Inl TypeError
              | Some k \<Rightarrow>
                  (let entry = (case agg k of None \<Rightarrow> new_bucket | Some e \<Rightarrow> e);
                       lats = (case numeric_latency latency of
                                 None \<Rightarrow> agg_latencies entry
                               | Some x \<Rightarrow> agg_latencies entry @ [x])
                   in case update_last_seen L ts (agg_last_seen entry) of
                        Inl e \<Rightarrow> Inl e
                      | Inr seen \<Rightarrow>
                          Inr (agg(k \<mapsto>
                            \<lparr>agg_latencies = lats,
                             agg_count = agg_count entry + 1,
                             agg_last_seen = seen,
                             agg_latest_version =
                               update_latest_version L ver (agg_latest_version entry)\<rparr>))))
      | _ \<Rightarrow> Inl AttributeError)"

text \<open>The loop over the lines: blank lines and lines that \<^verbatim>\<open>json.loads\<close> rejects are skipped.\<close>

fun fold_lines :: "('k::linorder) pylib \<Rightarrow> string list \<Rightarrow> agg \<Rightarrow> py_error + agg" where
  "fold_lines L [] agg = Inr agg"
| "fold_lines L (line # rest) agg =
     (let stripped = py_strip line in
      if stripped = [] then fold_lines L rest agg
      else (case json_loads L stripped of
              None \<Rightarrow> fold_lines L rest agg
            | Some rec \<Rightarrow>
                (case fold_record L agg rec of
                   Inl e \<Rightarrow> Inl e
                 | Inr agg' \<Rightarrow> fold_lines L rest agg')))"





text \<open>
  Reading the log back, as the loop of \<^verbatim>\<open>api_metrics\<close> does: the value of a line, \<open>None\<close>
  for a line the loop skips, and the values of all the lines of a log.
\<close>

definition read_line :: "'k pylib \<Rightarrow> string \<Rightarrow> pyval option" where
  "read_line L line =
     (let stripped = py_strip line in if stripped = [] then None else json_loads L stripped)"






definition record_latency :: "pyval \<Rightarrow> rat option" where
  "record_latency v =
     (case v of PDict r \<Rightarrow> numeric_latency (dict_get r ''latency_ms'') | _ \<Rightarrow> None)"




text \<open>A malformed line: not blank, and \<^verbatim>\<open>json.loads\<close> raises on it.\<close>

definition malformed_line :: "'k pylib \<Rightarrow> string \<Rightarrow> bool" where
  "malformed_line L line = (py_strip line \<noteq> [] \<and> json_loads L (py_strip line) = None)"


section \<open>Rendering\<close>

text \<open>
  Modelled from the spec: the template engine. \<^verbatim>\<open>render_prompt\<close> hands the template to
  \<^verbatim>\<open>Template(template_text, undefined=StrictUndefined)\<close> of Jinja2, a library whose code is
  not in the repository. The specification describes the engine as variable substitution
  with strict binding (a variable that the template references and the inputs do not bind
  fails the call, naming the variable) and counts a template syntax fault as a render error;
  its scenario writes a reference as \<^verbatim>\<open>{{name}}\<close>. The model interprets the templates made of
  literal text and of references \<^verbatim>\<open>{{ name }}\<close> to a plain name, as Jinja2 does:
  line ends are normalised and one line end at the end of the template is dropped; a
  reference that is empty or not closed is a syntax fault; the text is copied and a
  reference is replaced by \<^verbatim>\<open>str\<close> of the value, from left to right. Everything else
  (blocks, comments, other expressions, the names that the engine defines itself) is
  \<open>Uninterpreted\<close>: the specification does not say what it means.
\<close>

datatype segment = Data string | Print string

datatype render_error =
    NotFound py_error
  | UndefinedError string
  | TemplateSyntaxError
  | RenderTypeError
  | Uninterpreted


definition is_name_start :: "char \<Rightarrow> bool" where
  "is_name_start c =
     (let n = (of_char c :: nat) in (65 \<le> n \<and> n \<le> 90) \<or> (97 \<le> n \<and> n \<le> 122) \<or> n = 95)"

definition is_name_char :: "char \<Rightarrow> bool" where
  "is_name_char c =
     (let n = (of_char c :: nat) in is_name_start c \<or> (48 \<le> n \<and> n \<le> 57))"

definition engine_names :: "string list" where
  "engine_names =
     [''true'', ''false'', ''none'', ''True'', ''False'', ''None'', ''not'', ''self'',
      ''range'', ''dict'', ''lipsum'', ''cycler'', ''joiner'', ''namespace'']"

text \<open>The expression between \<^verbatim>\<open>{{\<close> and \<^verbatim>\<open>}}\<close>: a plain name, or a fault, or not interpreted.\<close>

definition print_name :: "string \<Rightarrow> render_error + string" where
  "print_name expr =
     (let x = py_strip expr in
      if x = [] then Inl TemplateSyntaxError
      else if is_name_start (hd x) \<and> list_all is_name_char x \<and> x \<notin> set engine_names
      then Inr x
      else Inl Uninterpreted)"

text \<open>An expression that the template ends in: a fault when it is empty or a plain name.\<close>

definition unclosed_print :: "string \<Rightarrow> render_error" where
  "unclosed_print expr =
     (case print_name expr of
        Inl e \<Rightarrow> e
      | Inr x \<Rightarrow> TemplateSyntaxError)"

fun lex_data :: "string \<Rightarrow> string \<Rightarrow> render_error + segment list"
  and lex_print :: "string \<Rightarrow> string \<Rightarrow> render_error + segment list" where
  "lex_data acc [] = Inr [Data (rev acc)]"
| "lex_data acc [c] = Inr [Data (rev (c # acc))]"
| "lex_data acc (c # d # cs) =
     (if c = CHR ''{'' \<and> d = CHR ''{''
      then (case lex_print [] cs of
              Inl e \<Rightarrow> Inl e
            | Inr segs \<Rightarrow> Inr (Data (rev acc) # segs))
      else if c = CHR ''{'' \<and> (d = CHR ''%'' \<or> d = CHR ''#'') then Inl Uninterpreted
      else lex_data (c # acc) (d # cs))"
| "lex_print acc [] = Inl (unclosed_print (rev acc))"
| "lex_print acc [c] = Inl (unclosed_print (rev (c # acc)))"
| "lex_print acc (c # d # cs) =
     (if c = CHR ''}'' \<and> d = CHR ''}''
      then (case print_name (rev acc) of
              Inl e \<Rightarrow> Inl e
            | Inr x \<Rightarrow>
                (case lex_data [] cs of
                   Inl e \<Rightarrow> Inl e
                 | Inr segs \<Rightarrow> Inr (Print x # segs)))
      else lex_print (c # acc) (d # cs))"







section \<open>A concrete library for the examples\<close>

text \<open>
  The closed examples below need a value for each library function. For versions they use
  the release segment of a version, the dotted decimal strings such as \<^verbatim>\<open>2.10.3\<close>:
  \<^verbatim>\<open>packaging\<close> compares two such versions by their numbers, after dropping trailing
  zeros (so \<^verbatim>\<open>1.0\<close> and \<^verbatim>\<open>1.0.0\<close> are equal), and rejects a string such as \<^verbatim>\<open>abc\<close>.
  The examples use this function on such strings only.
\<close>

definition digit_val :: "char \<Rightarrow> nat option" where
  "digit_val c =
     (let n = (of_char c :: nat) in if 48 \<le> n \<and> n \<le> 57 then Some (n - 48) else None)"

fun split_on :: "char \<Rightarrow> string \<Rightarrow> string list" where
  "split_on sep [] = [[]]"
| "split_on sep (c # cs) =
     (if c = sep then [] # split_on sep cs
      else (case split_on sep cs of [] \<Rightarrow> [[c]] | seg # segs \<Rightarrow> (c # seg) # segs))"

definition parse_nat :: "string \<Rightarrow> nat option" where
  "parse_nat s =
     (if s = [] then None
      else map_option (foldl (\<lambda>n d. 10 * n + d) 0) (those (map digit_val s)))"

definition release_version :: "string \<Rightarrow> nat list option" where
  "release_version s =
     map_option (\<lambda>ns. rev (dropWhile (\<lambda>n. n = 0) (rev ns)))
       (those (map parse_nat (split_on CHR ''.'' s)))"

section \<open>A concrete JSON reader and writer for the examples\<close>

text \<open>
  \<^verbatim>\<open>json.dumps(v, ensure_ascii=False)\<close> with the default separators, and \<^verbatim>\<open>json.loads\<close>,
  written out for the examples. The writer escapes the quote, the backslash and the control
  characters below 0x20 and copies every other character. A float is written as its integer
  part, a point and its decimals (at most 17, at least one), which is \<^verbatim>\<open>repr\<close> for the
  floats of the examples. The reader accepts the JSON grammar as \<^verbatim>\<open>json.loads\<close> does, with
  these limits: \<^verbatim>\<open>NaN\<close> and \<^verbatim>\<open>Infinity\<close> are not numbers of the model and are rejected, and
  so is a \<^verbatim>\<open>\u\<close> escape of a surrogate. It reads with a fuel that the length of the text
  bounds.
\<close>

definition digit_char :: "nat \<Rightarrow> char" where
  "digit_char d = char_of (48 + d)"

fun nat_digits :: "nat \<Rightarrow> nat \<Rightarrow> string" where
  "nat_digits 0 n = []"
| "nat_digits (Suc fuel) n =
     (if n < 10 then [digit_char n] else nat_digits fuel (n div 10) @ [digit_char (n mod 10)])"

definition dumps_nat :: "nat \<Rightarrow> string" where
  "dumps_nat n = nat_digits (Suc n) n"

definition dumps_int :: "int \<Rightarrow> string" where
  "dumps_int i = (if i < 0 then CHR ''-'' # dumps_nat (nat (- i)) else dumps_nat (nat i))"

fun frac_digits :: "nat \<Rightarrow> rat \<Rightarrow> string" where
  "frac_digits 0 x = []"
| "frac_digits (Suc fuel) x =
     (let d = nat \<lfloor>x * 10\<rfloor>; x' = x * 10 - of_nat d
      in digit_char d # (if x' = 0 then [] else frac_digits fuel x'))"

definition dumps_float :: "rat \<Rightarrow> string" where
  "dumps_float r =
     (let a = \<bar>r\<bar>; n = nat \<lfloor>a\<rfloor>
      in (if r < 0 then [CHR ''-''] else []) @ dumps_nat n @ [CHR ''.'']
           @ frac_digits 17 (a - of_nat n))"

definition hex_char :: "nat \<Rightarrow> char" where
  "hex_char d = (if d < 10 then char_of (48 + d) else char_of (87 + d))"

definition escape_char :: "char \<Rightarrow> string" where
  "escape_char c =
     (let n = (of_char c :: nat) in
      if c = CHR 0x22 then [CHR 0x5C, CHR 0x22]
      else if c = CHR 0x5C then [CHR 0x5C, CHR 0x5C]
      else if c = CHR 0x0A then [CHR 0x5C, CHR ''n'']
      else if c = CHR 0x0D then [CHR 0x5C, CHR ''r'']
      else if c = CHR 0x09 then [CHR 0x5C, CHR ''t'']
      else if c = CHR 0x08 then [CHR 0x5C, CHR ''b'']
      else if c = CHR 0x0C then [CHR 0x5C, CHR ''f'']
      else if n < 32
      then [CHR 0x5C, CHR ''u'', CHR ''0'', CHR ''0'', hex_char (n div 16), hex_char (n mod 16)]
      else [c])"

definition dumps_string :: "string \<Rightarrow> string" where
  "dumps_string s = CHR 0x22 # concat (map escape_char s) @ [CHR 0x22]"

fun example_dumps :: "pyval \<Rightarrow> string"
  and dumps_items :: "pyval list \<Rightarrow> string"
  and dumps_pairs :: "(string \<times> pyval) list \<Rightarrow> string" where
  "example_dumps PNone = ''null''"
| "example_dumps (PBool b) = (if b then ''true'' else ''false'')"
| "example_dumps (PInt i) = dumps_int i"
| "example_dumps (PFloat r) = dumps_float r"
| "example_dumps (PStr s) = dumps_string s"
| "example_dumps (PList xs) = CHR ''['' # dumps_items xs @ '']''"
| "example_dumps (PDict d) = CHR ''{'' # dumps_pairs d @ ''}''"
| "dumps_items [] = []"
| "dumps_items (x # xs) =
     example_dumps x @ (if xs = [] then [] else '', '' @ dumps_items xs)"
| "dumps_pairs [] = []"
| "dumps_pairs (kv # d) =
     dumps_string (fst kv) @ '': '' @ example_dumps (snd kv)
       @ (if d = [] then [] else '', '' @ dumps_pairs d)"

definition json_ws :: "char \<Rightarrow> bool" where
  "json_ws c = (c = CHR '' '' \<or> c = CHR 0x09 \<or> c = CHR 0x0A \<or> c = CHR 0x0D)"

definition skip_ws :: "string \<Rightarrow> string" where
  "skip_ws s = dropWhile json_ws s"

definition is_digit :: "char \<Rightarrow> bool" where
  "is_digit c = (let n = (of_char c :: nat) in 48 \<le> n \<and> n \<le> 57)"

definition digits_value :: "string \<Rightarrow> nat" where
  "digits_value ds = foldl (\<lambda>n c. 10 * n + (of_char c - 48)) 0 ds"

definition hex_value :: "char \<Rightarrow> nat option" where
  "hex_value c =
     (let n = (of_char c :: nat) in
      if 48 \<le> n \<and> n \<le> 57 then Some (n - 48)
      else if 97 \<le> n \<and> n \<le> 102 then Some (n - 87)
      else if 65 \<le> n \<and> n \<le> 70 then Some (n - 55)
      else None)"

text \<open>The bytes of a code point of the basic plane in UTF-8; \<open>None\<close> for a surrogate.\<close>

definition utf8 :: "nat \<Rightarrow> string option" where
  "utf8 n =
     (if n < 128 then Some [char_of n]
      else if n < 2048 then Some [char_of (192 + n div 64), char_of (128 + n mod 64)]
      else if 55296 \<le> n \<and> n < 57344 then None
      else Some [char_of (224 + n div 4096), char_of (128 + (n div 64) mod 64),
                 char_of (128 + n mod 64)])"

definition unescape :: "char \<Rightarrow> char option" where
  "unescape e =
     (if e = CHR 0x22 then Some (CHR 0x22)
      else if e = CHR 0x5C then Some (CHR 0x5C)
      else if e = CHR ''/'' then Some (CHR ''/'')
      else if e = CHR ''b'' then Some (CHR 0x08)
      else if e = CHR ''f'' then Some (CHR 0x0C)
      else if e = CHR ''n'' then Some (CHR 0x0A)
      else if e = CHR ''r'' then Some (CHR 0x0D)
      else if e = CHR ''t'' then Some (CHR 0x09)
      else None)"

text \<open>The characters of a string after its opening quote, up to the closing quote.\<close>

fun parse_chars :: "string \<Rightarrow> (string \<times> string) option" where
  "parse_chars [] = None"
| "parse_chars (c # cs) =
     (if c = CHR 0x22 then Some ([], cs)
      else if c = CHR 0x5C
      then (case cs of
              [] \<Rightarrow> None
            | e # cs1 \<Rightarrow>
                if e = CHR ''u''
                then (case cs1 of
                        h1 # h2 # h3 # h4 # cs2 \<Rightarrow>
                          (case (hex_value h1, hex_value h2, hex_value h3, hex_value h4) of
                             (Some a, Some b, Some c, Some d) \<Rightarrow>
                               (case utf8 (4096 * a + 256 * b + 16 * c + d) of
                                  None \<Rightarrow> None
                                | Some bytes \<Rightarrow>
                                    map_option (\<lambda>(s, r). (bytes @ s, r)) (parse_chars cs2))
                           | _ \<Rightarrow> None)
                      | _ \<Rightarrow> None)
                else (case unescape e of
                        None \<Rightarrow> None
                      | Some ch \<Rightarrow> map_option (\<lambda>(s, r). (ch # s, r)) (parse_chars cs1)))
      else if (of_char c :: nat) < 32 then None
      else map_option (\<lambda>(s, r). (c # s, r)) (parse_chars cs))"

text \<open>
  A number: an optional minus, the integer part (\<^verbatim>\<open>0\<close>, or digits that do not start with
  \<^verbatim>\<open>0\<close>), an optional fraction and an optional exponent. It is an \<^verbatim>\<open>int\<close> when it has
  neither fraction nor exponent, and a \<^verbatim>\<open>float\<close> otherwise.
\<close>

definition scan_sign :: "string \<Rightarrow> bool \<times> string" where
  "scan_sign s = (if s \<noteq> [] \<and> hd s = CHR ''-'' then (True, tl s) else (False, s))"

definition scan_int :: "string \<Rightarrow> string \<times> string" where
  "scan_int s =
     (if s \<noteq> [] \<and> hd s = CHR ''0'' then (''0'', tl s)
      else (takeWhile is_digit s, dropWhile is_digit s))"

definition scan_frac :: "string \<Rightarrow> string \<times> string" where
  "scan_frac s =
     (if s \<noteq> [] \<and> hd s = CHR ''.'' \<and> takeWhile is_digit (tl s) \<noteq> []
      then (takeWhile is_digit (tl s), dropWhile is_digit (tl s))
      else ([], s))"

definition scan_exp :: "string \<Rightarrow> bool \<times> string \<times> string" where
  "scan_exp s =
     (if s \<noteq> [] \<and> (hd s = CHR ''e'' \<or> hd s = CHR ''E'')
      then (let t = tl s;
                signed = (t \<noteq> [] \<and> (hd t = CHR ''-'' \<or> hd t = CHR ''+''));
                u = (if signed then tl t else t)
            in if takeWhile is_digit u = [] then (False, [], s)
               else (signed \<and> hd t = CHR ''-'', takeWhile is_digit u, dropWhile is_digit u))
      else (False, [], s))"

definition parse_number :: "string \<Rightarrow> (pyval \<times> string) option" where
  "parse_number s =
     (case scan_sign s of (neg, s1) \<Rightarrow>
      case scan_int s1 of (ds, s2) \<Rightarrow>
      case scan_frac s2 of (fs, s3) \<Rightarrow>
      case scan_exp s3 of (eneg, es, s4) \<Rightarrow>
        if ds = [] then None
        else if fs = [] \<and> es = []
        then Some (PInt (if neg then - int (digits_value ds) else int (digits_value ds)), s4)
        else (let mantissa = (of_nat (digits_value ds) :: rat)
                               + of_nat (digits_value fs) / 10 ^ length fs;
                  scaled = (if es = [] then mantissa
                            else if eneg then mantissa / 10 ^ digits_value es
                            else mantissa * 10 ^ digits_value es)
              in Some (PFloat (if neg then - scaled else scaled), s4)))"

text \<open>\<^verbatim>\<open>dict(pairs)\<close>: a repeated key keeps its first place and takes its last value.\<close>

definition make_dict :: "(string \<times> pyval) list \<Rightarrow> pydict" where
  "make_dict pairs = foldl (\<lambda>d kv. dict_set d (fst kv) (snd kv)) [] pairs"

fun parse_value :: "nat \<Rightarrow> string \<Rightarrow> (pyval \<times> string) option"
  and parse_elements :: "nat \<Rightarrow> string \<Rightarrow> (pyval list \<times> string) option"
  and parse_members :: "nat \<Rightarrow> string \<Rightarrow> ((string \<times> pyval) list \<times> string) option" where
  "parse_value 0 s = None"
| "parse_value (Suc n) s =
     (case s of
        [] \<Rightarrow> None
      | c # t \<Rightarrow>
          if c = CHR 0x22 then map_option (\<lambda>(x, r). (PStr x, r)) (parse_chars t)
          else if c = CHR ''{''
          then (case skip_ws t of
                  [] \<Rightarrow> None
                | c' # r \<Rightarrow>
                    if c' = CHR ''}'' then Some (PDict [], r)
                    else map_option (\<lambda>(ms, r'). (PDict (make_dict ms), r'))
                           (parse_members n (c' # r)))
          else if c = CHR ''[''
          then (case skip_ws t of
                  [] \<Rightarrow> None
                | c' # r \<Rightarrow>
                    if c' = CHR '']'' then Some (PList [], r)
                    else map_option (\<lambda>(vs, r'). (PList vs, r')) (parse_elements n (c' # r)))
          else if take 4 s = ''null'' then Some (PNone, drop 4 s)
          else if take 4 s = ''true'' then Some (PBool True, drop 4 s)
          else if take 5 s = ''false'' then Some (PBool False, drop 5 s)
          else parse_number s)"
| "parse_elements 0 s = None"
| "parse_elements (Suc n) s =
     (case parse_value n s of
        None \<Rightarrow> None
      | Some (v, r) \<Rightarrow>
          (case skip_ws r of
             [] \<Rightarrow> None
           | c # r' \<Rightarrow>
               if c = CHR '']'' then Some ([v], r')
               else if c = CHR '',''
               then map_option (\<lambda>(vs, r''). (v # vs, r'')) (parse_elements n (skip_ws r'))
               else None))"
| "parse_members 0 s = None"
| "parse_members (Suc n) s =
     (case s of
        [] \<Rightarrow> None
      | q # t \<Rightarrow>
          if q \<noteq> CHR 0x22 then None
          else (case parse_chars t of
                  None \<Rightarrow> None
                | Some (k, r) \<Rightarrow>
                    (case skip_ws r of
                       [] \<Rightarrow> None
                     | c # r1 \<Rightarrow>
                         if c \<noteq> CHR '':'' then None
                         else (case parse_value n (skip_ws r1) of
                                 None \<Rightarrow> None
                               | Some (v, r2) \<Rightarrow>
                                   (case skip_ws r2 of
                                      [] \<Rightarrow> None
                                    | c' # r3 \<Rightarrow>
                                        if c' = CHR ''}'' then Some ([(k, v)], r3)
                                        else if c' = CHR '',''
                                        then map_option (\<lambda>(ms, r4). ((k, v) # ms, r4))
                                               (parse_members n (skip_ws r3))
                                        else None)))))"

definition example_loads :: "string \<Rightarrow> pyval option" where
  "example_loads s =
     (case parse_value (Suc (length s)) (skip_ws s) of
        None \<Rightarrow> None
      | Some (v, r) \<Rightarrow> if skip_ws r = [] then Some v else None)"

text \<open>
  The \<^verbatim>\<open>type\<close> keyword of JSON Schema for the two types the examples need. A schema whose
  \<^verbatim>\<open>type\<close> is not a type name is itself invalid: \<^verbatim>\<open>jsonschema\<close> raises \<^verbatim>\<open>SchemaError\<close>
  for it, which is not a \<^verbatim>\<open>ValidationError\<close>.
\<close>

definition example_validate :: "pyval \<Rightarrow> pyval \<Rightarrow> validation" where
  "example_validate inst schema =
     (case schema of
        PDict d \<Rightarrow>
          (case map_of d ''type'' of
             None \<Rightarrow> Accepted
           | Some (PStr t) \<Rightarrow>
               if t = ''object''
               then (case inst of PDict _ \<Rightarrow> Accepted
                     | _ \<Rightarrow> RaisesValidationError ''instance is not of type object'')
               else if t = ''string''
               then (case inst of PStr _ \<Rightarrow> Accepted
                     | _ \<Rightarrow> RaisesValidationError ''instance is not of type string'')
               else RaisesSchemaError
           | Some _ \<Rightarrow> RaisesSchemaError)
      | _ \<Rightarrow> RaisesSchemaError)"

definition example_lib :: "nat list pylib" where
  "example_lib =
     \<lparr>parse_version = release_version,
      py_repr = (\<lambda>v. ''?''),
      py_gt_other = (\<lambda>a b. None),
      jsonschema_validate = example_validate,
      json_dumps = example_dumps,
      json_loads = example_loads\<rparr>"

text \<open>The scenario of the specification: \<^verbatim>\<open>greeting\<close> in versions 1.0.0 and 2.0.0.\<close>

definition greeting_files :: "prompt_file list" where
  "greeting_files =
     [\<lparr>source_file = ''greeting_v1.yaml'', loaded_at = ''2025-10-28T09:30:43+00:00'',
       safe_load = Some (PDict [(''prompt_id'', PStr ''greeting''), (''version'', PStr ''1.0.0''),
         (''template'', PStr ''Hello {{name}}'')])\<rparr>,
      \<lparr>source_file = ''greeting_v2.yaml'', loaded_at = ''2025-10-28T09:30:44+00:00'',
       safe_load = Some (PDict [(''prompt_id'', PStr ''greeting''), (''version'', PStr ''2.0.0''),
         (''template'', PStr ''Hi {{name}}!'')])\<rparr>]"

definition greeting_v1 :: pydict where
  "greeting_v1 =
     [(''prompt_id'', PStr ''greeting''), (''version'', PStr ''1.0.0''),
      (''template'', PStr ''Hello {{name}}''), (''_source_file'', PStr ''greeting_v1.yaml''),
      (''_loaded_at'', PStr ''2025-10-28T09:30:43+00:00''), (''example_inputs'', PList []),
      (''expected_output_schema'', PDict [])]"

definition greeting_v2 :: pydict where
  "greeting_v2 =
     [(''prompt_id'', PStr ''greeting''), (''version'', PStr ''2.0.0''),
      (''template'', PStr ''Hi {{name}}!''), (''_source_file'', PStr ''greeting_v2.yaml''),
      (''_loaded_at'', PStr ''2025-10-28T09:30:44+00:00''), (''example_inputs'', PList []),
      (''expected_output_schema'', PDict [])]"

text \<open>Two documents for the examples: one declares an empty identifier, one declares none.\<close>

definition empty_id_file :: prompt_file where
  "empty_id_file =
     \<lparr>source_file = ''blank.yaml'', loaded_at = ''2025-10-28T09:30:45+00:00'',
      safe_load = Some (PDict [(''prompt_id'', PStr ''''), (''template'', PStr ''Hello'')])\<rparr>"

definition no_id_file :: prompt_file where
  "no_id_file =
     \<lparr>source_file = ''notes.yaml'', loaded_at = ''2025-10-28T09:30:46+00:00'',
      safe_load = Some (PDict [(''version'', PStr ''3.0.0''), (''template'', PStr ''Hey'')])\<rparr>"

text \<open>
  A group for the fallback sort: one document without a version, one with version \<^verbatim>\<open>0\<close> and
  one whose version \<^verbatim>\<open>abc\<close> does not parse.
\<close>

definition unversioned_files :: "prompt_file list" where
  "unversioned_files =
     [\<lparr>source_file = ''a.yaml'', loaded_at = ''t1'',
       safe_load = Some (PDict [(''prompt_id'', PStr ''p'')])\<rparr>,
      \<lparr>source_file = ''b.yaml'', loaded_at = ''t2'',
       safe_load = Some (PDict [(''prompt_id'', PStr ''p''), (''version'', PStr ''0'')])\<rparr>,
      \<lparr>source_file = ''c.yaml'', loaded_at = ''t3'',
       safe_load = Some (PDict [(''prompt_id'', PStr ''p''), (''version'', PStr ''abc'')])\<rparr>]"

text \<open>
  The key of the fallback sort as the specification words it, a missing version counting as
  \<^verbatim>\<open>0.0.0\<close>; \<open>lexical_key\<close> above is the key the code uses.
\<close>

definition claimed_lexical_key :: "'k pylib \<Rightarrow> pydict \<Rightarrow> string" where
  "claimed_lexical_key L x = py_str L (dict_get_default x ''version'' (PStr ''0.0.0''))"

text \<open>
  Usage records as \<^verbatim>\<open>log_usage\<close> writes them, and three logs: three records of one
  identifier with latencies 10, 20 and 30; two records around the line \<^verbatim>\<open>not a record\<close>;
  and two records around the line \<^verbatim>\<open>42\<close>, which is JSON but not a mapping.
\<close>

definition example_record :: "string \<Rightarrow> string \<Rightarrow> rat \<Rightarrow> pyval" where
  "example_record ts pid latency =
     PDict [(''timestamp'', PStr ts), (''prompt_id'', PStr pid), (''version'', PStr ''1.0.0''),
            (''input'', PDict []), (''response'', PDict []),
            (''latency_ms'', PFloat latency), (''metadata'', PDict [])]"


definition interleaved_log :: string where
  "interleaved_log =
     example_dumps (example_record ''2025-10-28T09:30:43+00:00'' ''A'' 10) @ [CHR 0x0A]
     @ ''not a record'' @ [CHR 0x0A]
     @ example_dumps (example_record ''2025-10-28T09:30:44+00:00'' ''A'' 20) @ [CHR 0x0A]"









section \<open>Properties of the index\<close>

lemma index_files_eq:
  "index_files L fs idx pid =
     (if loaded_for L fs pid = [] then idx pid
      else Some ((case idx pid of None \<Rightarrow> [] | Some vs \<Rightarrow> vs) @ loaded_for L fs pid))"
proof (induction fs arbitrary: idx)
  case Nil
  show ?case by (simp add: loaded_for_def)
next
  case (Cons f fs)
  show ?case
  proof (cases "load_entry L f")
    case None
    then show ?thesis
      using Cons.IH [of idx] by (simp add: loaded_for_def)
  next
    case (Some pe)
    obtain p e where pe: "pe = (p, e)" by (cases pe)
    have step: "index_files L (f # fs) idx pid = index_files L fs (index_append idx p e) pid"
      using Some pe by simp
    have lf: "loaded_for L (f # fs) pid = (if p = pid then [e] else []) @ loaded_for L fs pid"
      using Some pe by (simp add: loaded_for_def)
    show ?thesis
      unfolding step lf Cons.IH [of "index_append idx p e"]
      by (cases "idx pid") (simp_all add: index_append_def)
  qed
qed

lemma load_prompts_eq:
  "load_prompts L fs pid =
     (if loaded_for L fs pid = [] then None else Some (sort_versions L (loaded_for L fs pid)))"
  by (simp add: load_prompts_def index_files_eq)

lemma py_sort_desc_set: "set (py_sort_desc key xs) = set xs"
  by (simp add: py_sort_desc_def)

lemma py_sort_desc_sorted: "sorted_wrt (\<lambda>a b. key b \<le> key a) (py_sort_desc key xs)"
proof -
  have "sorted (map key (sort_key key (rev xs)))" by (rule sorted_sort_key)
  then have "sorted_wrt (\<lambda>a b. key a \<le> key b) (sort_key key (rev xs))"
    by (simp add: sorted_map)
  then show ?thesis
    by (simp add: py_sort_desc_def sorted_wrt_rev)
qed

lemma py_sort_desc_stable:
  "filter (\<lambda>x. key x = k) (py_sort_desc key xs) = filter (\<lambda>x. key x = k) xs"
  by (simp add: py_sort_desc_def rev_filter [symmetric] sort_key_stable)


lemma sort_versions_set: "set (sort_versions L xs) = set xs"
  by (simp add: sort_versions_def py_sort_desc_set)


section \<open>Resolution\<close>








section \<open>Loading\<close>

lemma load_entry_lacks: "lacks_prompt_id f \<Longrightarrow> load_entry L f = None"
  by (auto simp: lacks_prompt_id_def load_entry_def split: option.splits pyval.splits)

lemma load_entry_Some:
  "load_entry L f = Some (pid, c) \<Longrightarrow>
     \<exists>d p. safe_load f = Some (PDict d) \<and> map_of d ''prompt_id'' = Some p \<and> pid = py_str L p"
  by (auto simp: load_entry_def split: option.splits pyval.splits if_splits)

lemma map_filter_skip:
  "\<forall>x. \<not> P x \<longrightarrow> f x = None \<Longrightarrow>
     List.map_filter f (filter P xs) = List.map_filter f xs"
  by (induction xs) (simp_all split: option.splits)

lemma loaded_for_mem:
  "c \<in> set (loaded_for L files pid) \<Longrightarrow> \<exists>f\<in>set files. load_entry L f = Some (pid, c)"
  by (auto simp: loaded_for_def List.map_filter_def)

text \<open>
  C8, as the code has it. Every entry of the index comes from a document that is a mapping
  with the key \<^verbatim>\<open>prompt_id\<close>, and is filed under \<^verbatim>\<open>str\<close> of that key's value; a document
  without the key (or one that is not a mapping) contributes nothing, so the index is the
  index of the remaining documents. The guard tests the presence of the key only.
\<close>

theorem registry_entries_declare_prompt_id:
  fixes L :: "('k::linorder) pylib"
  shows "(\<forall>pid cs c. load_prompts L files pid = Some cs \<and> c \<in> set cs \<longrightarrow>
            (\<exists>f\<in>set files. \<exists>d p. safe_load f = Some (PDict d) \<and> map_of d ''prompt_id'' = Some p
               \<and> pid = py_str L p \<and> load_entry L f = Some (pid, c)))
       \<and> load_prompts L (filter (\<lambda>f. \<not> lacks_prompt_id f) files) = load_prompts L files"
proof (intro conjI allI impI)
  fix pid cs c
  assume a: "load_prompts L files pid = Some cs \<and> c \<in> set cs"
  then have "cs = sort_versions L (loaded_for L files pid)"
    by (auto simp: load_prompts_eq split: if_splits)
  then have "c \<in> set (loaded_for L files pid)"
    using a by (simp add: sort_versions_set)
  then obtain f where f: "f \<in> set files" "load_entry L f = Some (pid, c)"
    using loaded_for_mem by blast
  then show "\<exists>f\<in>set files. \<exists>d p. safe_load f = Some (PDict d) \<and> map_of d ''prompt_id'' = Some p
               \<and> pid = py_str L p \<and> load_entry L f = Some (pid, c)"
    using load_entry_Some [OF f(2)] by blast
next
  have "List.map_filter (load_entry L) (filter (\<lambda>f. \<not> lacks_prompt_id f) files)
          = List.map_filter (load_entry L) files"
    by (rule map_filter_skip) (simp add: load_entry_lacks)
  then have "loaded_for L (filter (\<lambda>f. \<not> lacks_prompt_id f) files) pid = loaded_for L files pid"
    for pid
    by (simp add: loaded_for_def)
  then show "load_prompts L (filter (\<lambda>f. \<not> lacks_prompt_id f) files) = load_prompts L files"
    by (intro ext) (simp add: load_prompts_eq)
qed

lemma mixed_registry:
  "load_prompts example_lib (no_id_file # greeting_files) ''greeting''
     = Some [greeting_v2, greeting_v1]"
  by code_simp

theorem registry_entries_declare_prompt_id_witness:
  "lacks_prompt_id no_id_file
   \<and> load_prompts example_lib (filter (\<lambda>f. \<not> lacks_prompt_id f) (no_id_file # greeting_files))
       = load_prompts example_lib (no_id_file # greeting_files)
   \<and> load_prompts example_lib (no_id_file # greeting_files) ''greeting''
       = Some [greeting_v2, greeting_v1]
   \<and> (\<exists>f\<in>set (no_id_file # greeting_files). \<exists>d p. safe_load f = Some (PDict d)
         \<and> map_of d ''prompt_id'' = Some p \<and> ''greeting'' = py_str example_lib p
         \<and> load_entry example_lib f = Some (''greeting'', greeting_v2))"
proof -
  have l: "lacks_prompt_id no_id_file"
    by (simp add: lacks_prompt_id_def no_id_file_def)
  have m: "load_prompts example_lib (no_id_file # greeting_files) ''greeting''
             = Some [greeting_v2, greeting_v1] \<and> greeting_v2 \<in> set [greeting_v2, greeting_v1]"
    by (simp add: mixed_registry)
  show ?thesis
    using l m registry_entries_declare_prompt_id [of example_lib "no_id_file # greeting_files"]
    by blast
qed

text \<open>
  C8, as the claim states it, fails: a document whose \<^verbatim>\<open>prompt_id\<close> is the empty string passes
  the guard \<^verbatim>\<open>"prompt_id" not in data\<close> and its entry is filed under the empty identifier.
\<close>

theorem empty_prompt_id_enters_registry:
  "load_prompts example_lib [empty_id_file] [] =
     Some [[(''prompt_id'', PStr []), (''template'', PStr ''Hello''),
            (''_source_file'', PStr ''blank.yaml''),
            (''_loaded_at'', PStr ''2025-10-28T09:30:45+00:00''),
            (''example_inputs'', PList []), (''expected_output_schema'', PDict [])]]"
  by code_simp

text \<open>
  The order of a group after \<^verbatim>\<open>_load_prompts\<close>: a permutation of the entries loaded for the
  identifier, descending by parsed version when every version of the group parses and
  descending by version string otherwise, entries with equal keys in the order of loading.
\<close>

lemma load_prompts_sorted:
  fixes L :: "('k::linorder) pylib"
  assumes "load_prompts L files pid = Some cs"
  shows "mset cs = mset (loaded_for L files pid)"
    and "list_all (\<lambda>x. semantic_key L x \<noteq> None) (loaded_for L files pid) \<Longrightarrow>
           sorted_wrt (\<lambda>a b. the (semantic_key L b) \<le> the (semantic_key L a)) cs
           \<and> (\<forall>k. filter (\<lambda>x. the (semantic_key L x) = k) cs
                 = filter (\<lambda>x. the (semantic_key L x) = k) (loaded_for L files pid))"
    and "\<not> list_all (\<lambda>x. semantic_key L x \<noteq> None) (loaded_for L files pid) \<Longrightarrow>
           sorted_wrt (\<lambda>a b. lexical_key L b \<le> lexical_key L a) cs
           \<and> (\<forall>k. filter (\<lambda>x. lexical_key L x = k) cs
                 = filter (\<lambda>x. lexical_key L x = k) (loaded_for L files pid))"
proof -
  have cs: "cs = sort_versions L (loaded_for L files pid)"
    using assms by (auto simp: load_prompts_eq split: if_splits)
  show "mset cs = mset (loaded_for L files pid)"
    by (simp add: cs sort_versions_def py_sort_desc_def)
  show "list_all (\<lambda>x. semantic_key L x \<noteq> None) (loaded_for L files pid) \<Longrightarrow>
           sorted_wrt (\<lambda>a b. the (semantic_key L b) \<le> the (semantic_key L a)) cs
           \<and> (\<forall>k. filter (\<lambda>x. the (semantic_key L x) = k) cs
                 = filter (\<lambda>x. the (semantic_key L x) = k) (loaded_for L files pid))"
    by (simp add: cs sort_versions_def py_sort_desc_sorted py_sort_desc_stable)
  show "\<not> list_all (\<lambda>x. semantic_key L x \<noteq> None) (loaded_for L files pid) \<Longrightarrow>
           sorted_wrt (\<lambda>a b. lexical_key L b \<le> lexical_key L a) cs
           \<and> (\<forall>k. filter (\<lambda>x. lexical_key L x = k) cs
                 = filter (\<lambda>x. lexical_key L x = k) (loaded_for L files pid))"
    by (simp add: cs sort_versions_def py_sort_desc_sorted py_sort_desc_stable)
qed


text \<open>
  C9. The two sorts are as the claim says (\<open>load_prompts_sorted\<close>), and in the semantic sort a
  missing version counts as \<^verbatim>\<open>0.0.0\<close>. In the fallback sort the code uses the default
  \<^verbatim>\<open>""\<close> instead. In the group below the version \<^verbatim>\<open>abc\<close> does not parse, so the fallback
  runs: the code puts the document without a version last, after version \<^verbatim>\<open>0\<close>, while the
  descending string order with the default \<^verbatim>\<open>0.0.0\<close> puts it before version \<^verbatim>\<open>0\<close>.
\<close>

theorem load_prompts_fallback_default:
  "load_prompts example_lib unversioned_files ''p'' =
     Some [[(''prompt_id'', PStr ''p''), (''version'', PStr ''abc''), (''_source_file'', PStr ''c.yaml''),
            (''_loaded_at'', PStr ''t3''), (''example_inputs'', PList []),
            (''expected_output_schema'', PDict [])],
           [(''prompt_id'', PStr ''p''), (''version'', PStr ''0''), (''_source_file'', PStr ''b.yaml''),
            (''_loaded_at'', PStr ''t2''), (''example_inputs'', PList []),
            (''expected_output_schema'', PDict [])],
           [(''prompt_id'', PStr ''p''), (''_source_file'', PStr ''a.yaml''),
            (''_loaded_at'', PStr ''t1''), (''example_inputs'', PList []),
            (''expected_output_schema'', PDict [])]]
   \<and> py_sort_desc (claimed_lexical_key example_lib) (loaded_for example_lib unversioned_files ''p'') =
     [[(''prompt_id'', PStr ''p''), (''version'', PStr ''abc''), (''_source_file'', PStr ''c.yaml''),
            (''_loaded_at'', PStr ''t3''), (''example_inputs'', PList []),
            (''expected_output_schema'', PDict [])],
           [(''prompt_id'', PStr ''p''), (''_source_file'', PStr ''a.yaml''),
            (''_loaded_at'', PStr ''t1''), (''example_inputs'', PList []),
            (''expected_output_schema'', PDict [])],
           [(''prompt_id'', PStr ''p''), (''version'', PStr ''0''), (''_source_file'', PStr ''b.yaml''),
            (''_loaded_at'', PStr ''t2''), (''example_inputs'', PList []),
            (''expected_output_schema'', PDict [])]]"
  by code_simp

section \<open>Properties of the aggregation\<close>





lemma malformed_read_line: "malformed_line L line \<Longrightarrow> read_line L line = None"
  by (simp add: malformed_line_def read_line_def)

lemma fold_lines_read_None:
  "read_line L line = None \<Longrightarrow> fold_lines L (line # rest) agg = fold_lines L rest agg"
  by (auto simp: read_line_def Let_def split: if_splits)

lemma fold_lines_read_Some:
  "read_line L line = Some v \<Longrightarrow>
     fold_lines L (line # rest) agg =
       (case fold_record L agg v of Inl e \<Rightarrow> Inl e | Inr agg' \<Rightarrow> fold_lines L rest agg')"
  by (auto simp: read_line_def Let_def split: if_splits)

lemma fold_lines_skip_malformed:
  "fold_lines L (filter (\<lambda>line. \<not> malformed_line L line) lines) agg = fold_lines L lines agg"
proof (induction lines arbitrary: agg)
  case Nil
  show ?case by simp
next
  case (Cons line rest)
  show ?case
  proof (cases "malformed_line L line")
    case True
    then show ?thesis
      using Cons.IH [of agg] by (simp add: fold_lines_read_None malformed_read_line del: fold_lines.simps)
  next
    case False
    show ?thesis
    proof (cases "read_line L line")
      case None
      then show ?thesis
        using False Cons.IH [of agg] by (simp add: fold_lines_read_None del: fold_lines.simps)
    next
      case (Some v)
      then show ?thesis
        using False Cons.IH
        by (simp add: fold_lines_read_Some del: fold_lines.simps split: sum.splits)
    qed
  qed
qed


section \<open>Metrics: the claims\<close>


lemma interleaved_log_lines:
  "text_lines interleaved_log =
     [example_dumps (example_record ''2025-10-28T09:30:43+00:00'' ''A'' 10),
      ''not a record'',
      example_dumps (example_record ''2025-10-28T09:30:44+00:00'' ''A'' 20)]"
  by code_simp




lemma example_record_latency: "record_latency (example_record ts pid latency) = Some latency"
  by (simp add: record_latency_def example_record_def dict_get_def)

















section \<open>The usage log: the claims\<close>



















section \<open>Rendering: the claim\<close>






end
